theory Spec2Isabelle
  imports Complex_Main "HOL-Library.AList" "HOL-Library.Sublist"
begin

section \<open>JobSpy API: a shallow embedding of \<^verbatim>\<open>main.py\<close>\<close>

text \<open>
  The service is a thin HTTP layer over two libraries that are not part of the
  repository: \<^verbatim>\<open>jobspy\<close> (the scraper) and \<^verbatim>\<open>pandas\<close> (the table it returns).
  The scraper is a parameter of every handler below; of pandas only the three operations
  the handlers use are modelled (\<^verbatim>\<open>DataFrame.empty\<close>, \<^verbatim>\<open>DataFrame.to_dict('records')\<close>
  and \<^verbatim>\<open>pd.isna\<close> on a scalar). Logging has no effect on any response and is left out,
  and so is the JSON encoding of what a handler returns.
\<close>

subsection \<open>Cell values and \<^verbatim>\<open>pd.isna\<close>\<close>

text \<open>
  A cell of a result row is a scalar: \<^verbatim>\<open>None\<close>, the float \<^verbatim>\<open>nan\<close>, the missing-value
  markers \<^verbatim>\<open>pd.NaT\<close> and \<^verbatim>\<open>pd.NA\<close>, a boolean, an integer, a float that is not
  \<^verbatim>\<open>nan\<close> (its payload kept abstractly as a real number), a string, or a date
  (year, month, day).
\<close>

datatype pyval =
    PNone
  | PNaN
  | PNaT
  | PNA
  | PBool bool
  | PInt int
  | PFloat real
  | PStr string
  | PDate nat nat nat

text \<open>\<^verbatim>\<open>pd.isna(value)\<close> on a scalar: true for exactly the four missing-value markers.\<close>

fun isna :: "pyval \<Rightarrow> bool" where
  "isna PNone = True"
| "isna PNaN = True"
| "isna PNaT = True"
| "isna PNA = True"
| "isna (PBool b) = False"
| "isna (PInt i) = False"
| "isna (PFloat x) = False"
| "isna (PStr s) = False"
| "isna (PDate y m d) = False"

subsection \<open>Dictionaries and data frames\<close>

text \<open>
  A Python \<^verbatim>\<open>dict\<close> keeps its keys in insertion order and holds each key once: an
  association list, with \<^verbatim>\<open>d[k] = v\<close> as \<^const>\<open>AList.update\<close> (the value is replaced in
  place when the key is present, and appended otherwise).
\<close>

type_synonym pydict = "(string \<times> pyval) list"

text \<open>\<^verbatim>\<open>dict(items)\<close>, started from the dictionary \<open>d\<close>: a later duplicate key overwrites.\<close>

fun py_dict :: "pydict \<Rightarrow> (string \<times> pyval) list \<Rightarrow> pydict" where
  "py_dict d [] = d"
| "py_dict d ((k, v) # kvs) = py_dict (AList.update k v d) kvs"

text \<open>
  A data frame: its column labels and, for every index entry, the list of that row's
  cells.
\<close>

record DataFrame =
  columns :: "string list"
  data :: "pyval list list"

text \<open>\<^verbatim>\<open>DataFrame.empty\<close>: true when any axis has length zero.\<close>

definition df_empty :: "DataFrame \<Rightarrow> bool" where
  "df_empty df = (data df = [] \<or> columns df = [])"

text \<open>
  \<^verbatim>\<open>DataFrame.to_dict('records')\<close>: one \<^verbatim>\<open>dict(zip(columns, row))\<close> for every tuple of
  \<^verbatim>\<open>itertuples(index=False)\<close>, which zips the column arrays and so yields nothing for a
  frame without columns.
\<close>

definition to_dict_records :: "DataFrame \<Rightarrow> pydict list" where
  "to_dict_records df =
     (if columns df = [] then []
      else map (\<lambda>row. py_dict [] (zip (columns df) row)) (data df))"

subsection \<open>The null-normalization loop\<close>

text \<open>
  \<^verbatim>\<open>
  for job in jobs_list:
      for key, value in job.items():
          if pd.isna(value):
              job[key] = None
  \<close>
  The same loop stands in both search handlers. The inner loop walks the items of the
  dictionary it updates; an assignment to a present key neither resizes the dictionary
  nor touches another key's item, so the items still to come are those of the start.
\<close>

fun clean_items :: "(string \<times> pyval) list \<Rightarrow> pydict \<Rightarrow> pydict" where
  "clean_items [] job = job"
| "clean_items ((key, val) # rest) job =
     clean_items rest (if isna val then AList.update key PNone job else job)"

definition clean_job :: "pydict \<Rightarrow> pydict" where
  "clean_job job = clean_items job job"

fun clean_nan :: "pydict list \<Rightarrow> pydict list" where
  "clean_nan [] = []"
| "clean_nan (job # jobs_list) = clean_job job # clean_nan jobs_list"

subsection \<open>Formatting a length\<close>

text \<open>The decimal text of a natural number, as an f-string prints \<^verbatim>\<open>len(jobs_list)\<close>.\<close>

definition digit_char :: "nat \<Rightarrow> char" where
  "digit_char d = char_of (48 + d)"

function str_nat :: "nat \<Rightarrow> string" where
  "str_nat n = (if n < 10 then [digit_char n] else str_nat (n div 10) @ [digit_char (n mod 10)])"
  by pat_completeness auto
termination
  by (relation "measure id") auto

declare str_nat.simps [simp del]

subsection \<open>The scraper, exceptions and HTTP results\<close>

text \<open>
  An instance of \<^verbatim>\<open>Exception\<close>, with the text \<^verbatim>\<open>str(e)\<close> gives for it. The handlers
  catch \<^verbatim>\<open>Exception\<close>; what is raised outside that class (an interrupt, an exit) is not
  modelled.
\<close>

datatype py_exception = PyException string

fun str :: "py_exception \<Rightarrow> string" where
  "str (PyException m) = m"

text \<open>A keyword argument of \<^verbatim>\<open>scrape_jobs\<close>, and Python's truth value of it.\<close>

datatype pyarg =
    ANone
  | ABool bool
  | AInt int
  | AStr string
  | AStrList "string list"

fun truthy :: "pyarg \<Rightarrow> bool" where
  "truthy ANone = False"
| "truthy (ABool b) = b"
| "truthy (AInt i) = (i \<noteq> 0)"
| "truthy (AStr s) = (s \<noteq> [])"
| "truthy (AStrList xs) = (xs \<noteq> [])"

type_synonym kwargs = "(string \<times> pyarg) list"

text \<open>One call of \<^verbatim>\<open>scrape_jobs\<close> raises, or returns \<^verbatim>\<open>None\<close> or a data frame.\<close>

datatype scrape_outcome =
    Raises py_exception
  | Returns "DataFrame option"

type_synonym scraper = "kwargs \<Rightarrow> scrape_outcome"

text \<open>
  \<^verbatim>\<open>from jobspy import scrape_jobs\<close> raises (\<open>Inl\<close>) or binds the scraper (\<open>Inr\<close>).
\<close>

type_synonym jobspy = "py_exception + scraper"

text \<open>A scraper that answers every call with the same outcome.\<close>

definition const_scraper :: "scrape_outcome \<Rightarrow> scraper" where
  "const_scraper out kw = out"

text \<open>
  What a request ends in when it does not succeed: an \<^verbatim>\<open>HTTPException\<close> raised by a
  handler, or the framework's rejection of the request, naming the offending fields.
\<close>

datatype http_error =
    HTTPException int string
  | RequestValidationError "string list"

fun status_code :: "http_error \<Rightarrow> int" where
  "status_code (HTTPException code d) = code"
| "status_code (RequestValidationError flds) = 422"

record JobSearchResponse =
  success :: bool
  message :: string
  total_jobs :: int
  jobs :: "pydict list"

text \<open>
  A handler's run: what the request ends in, and the keyword arguments of every call of
  the scraper it made, in order.
\<close>

type_synonym 'a run = "(http_error + 'a) \<times> kwargs list"

subsection \<open>\<^verbatim>\<open>GET /test\<close>\<close>

text \<open>
  The payload of \<^verbatim>\<open>test_jobspy\<close>; its JSON keys are \<^verbatim>\<open>status\<close>, \<^verbatim>\<open>message\<close> and
  \<^verbatim>\<open>jobspy_imported\<close>.
\<close>

record test_payload =
  test_status :: string
  test_message :: string
  jobspy_imported :: bool

definition test_jobspy :: "jobspy \<Rightarrow> http_error + test_payload" where
  "test_jobspy js =
     (case js of
        Inr scrape_jobs \<Rightarrow>
          Inr \<lparr>test_status = ''success'',
               test_message = ''JobSpy is working correctly'',
               jobspy_imported = True\<rparr>
      | Inl e \<Rightarrow>
          Inr \<lparr>test_status = ''error'',
               test_message = ''JobSpy test failed: '' @ str e,
               jobspy_imported = False\<rparr>)"

subsection \<open>\<^verbatim>\<open>GET /search-jobs-simple\<close>\<close>

text \<open>The keyword arguments of the handler's one call of the scraper.\<close>

definition simple_kwargs :: "string \<Rightarrow> string \<Rightarrow> int \<Rightarrow> kwargs" where
  "simple_kwargs st loc n =
     [(''search_term'', AStr st),
      (''location'', AStr loc),
      (''site_name'', AStrList [''indeed'']),
      (''results_wanted'', AInt n)]"

text \<open>\<^verbatim>\<open>jobs_df is None or jobs_df.empty\<close>\<close>

definition none_or_empty :: "DataFrame option \<Rightarrow> bool" where
  "none_or_empty jobs_df = (case jobs_df of None \<Rightarrow> True | Some df \<Rightarrow> df_empty df)"

text \<open>
  The handler; its parameters \<open>st\<close>, \<open>loc\<close> and \<open>n\<close> are \<^verbatim>\<open>search_term\<close>,
  \<^verbatim>\<open>location\<close> and \<^verbatim>\<open>results_wanted\<close>. The whole body stands in one
  \<^verbatim>\<open>try\<close>: the import and the call are what can raise.
\<close>

definition search_jobs_simple :: "jobspy \<Rightarrow> string \<Rightarrow> string \<Rightarrow> int \<Rightarrow> JobSearchResponse run" where
  "search_jobs_simple js st loc n =
     (case js of
        Inl e \<Rightarrow> (Inl (HTTPException 500 (''Search failed: '' @ str e)), [])
      | Inr scrape_jobs \<Rightarrow>
          (case scrape_jobs (simple_kwargs st loc n) of
             Raises e \<Rightarrow>
               (Inl (HTTPException 500 (''Search failed: '' @ str e)), [simple_kwargs st loc n])
           | Returns jobs_df \<Rightarrow>
               (if none_or_empty jobs_df then
                  (Inr \<lparr>success = True,
                        message = ''No jobs found for the search criteria'',
                        total_jobs = 0,
                        jobs = []\<rparr>,
                   [simple_kwargs st loc n])
                else
                  (let jobs_list = clean_nan (to_dict_records (the jobs_df)) in
                   (Inr \<lparr>success = True,
                         message = ''Found '' @ str_nat (length jobs_list) @ '' jobs'',
                         total_jobs = int (length jobs_list),
                         jobs = jobs_list\<rparr>,
                    [simple_kwargs st loc n])))))"

text \<open>
  The route: \<^verbatim>\<open>search_term\<close> is required, \<^verbatim>\<open>location\<close> defaults to the empty string,
  \<^verbatim>\<open>results_wanted\<close> defaults to 5 and is declared \<^verbatim>\<open>ge=1, le=20\<close>. The framework
  checks the declared parameters before it calls the handler, and answers 422 itself when
  one fails. An absent query parameter is \<open>None\<close>.
\<close>

record simple_query =
  q_search_term :: "string option"
  q_location :: "string option"
  q_results_wanted :: "int option"

definition simple_query_errors :: "simple_query \<Rightarrow> string list" where
  "simple_query_errors q =
     (case q_search_term q of None \<Rightarrow> [''search_term''] | Some st \<Rightarrow> []) @
     (case q_results_wanted q of
        None \<Rightarrow> []
      | Some n \<Rightarrow> if 1 \<le> n \<and> n \<le> 20 then [] else [''results_wanted''])"

definition route_search_jobs_simple :: "jobspy \<Rightarrow> simple_query \<Rightarrow> JobSearchResponse run" where
  "route_search_jobs_simple js q =
     (if simple_query_errors q = [] then
        search_jobs_simple js
          (case q_search_term q of None \<Rightarrow> [] | Some st \<Rightarrow> st)
          (case q_location q of None \<Rightarrow> [] | Some loc \<Rightarrow> loc)
          (case q_results_wanted q of None \<Rightarrow> 5 | Some n \<Rightarrow> n)
      else (Inl (RequestValidationError (simple_query_errors q)), []))"

subsection \<open>\<^verbatim>\<open>POST /search-jobs\<close>\<close>

record JobSearchRequest =
  search_term :: string
  location :: string
  site_name :: "string list"
  results_wanted :: "int option"
  is_remote :: "bool option"

text \<open>The dictionary \<^verbatim>\<open>search_params\<close> as first built, an \<^verbatim>\<open>Optional\<close> field's \<^verbatim>\<open>None\<close> included.\<close>

definition search_params :: "JobSearchRequest \<Rightarrow> kwargs" where
  "search_params request =
     [(''search_term'', AStr (search_term request)),
      (''location'', AStr (location request)),
      (''site_name'', AStrList (site_name request)),
      (''results_wanted'', (case results_wanted request of None \<Rightarrow> ANone | Some n \<Rightarrow> AInt n)),
      (''is_remote'', (case is_remote request of None \<Rightarrow> ANone | Some b \<Rightarrow> ABool b))]"

text \<open>\<^verbatim>\<open>{k: v for k, v in search_params.items() if v}\<close>\<close>

definition remove_empty :: "kwargs \<Rightarrow> kwargs" where
  "remove_empty params = filter (\<lambda>(k, v). truthy v) params"

definition search_jobs_post :: "jobspy \<Rightarrow> JobSearchRequest \<Rightarrow> JobSearchResponse run" where
  "search_jobs_post js request =
     (case js of
        Inl e \<Rightarrow> (Inl (HTTPException 500 (str e)), [])
      | Inr scrape_jobs \<Rightarrow>
          (let params = remove_empty (search_params request) in
           (case scrape_jobs params of
              Raises e \<Rightarrow> (Inl (HTTPException 500 (str e)), [params])
            | Returns jobs_df \<Rightarrow>
                (if none_or_empty jobs_df then
                   (Inr \<lparr>success = True,
                         message = ''No jobs found'',
                         total_jobs = 0,
                         jobs = []\<rparr>,
                    [params])
                 else
                   (let jobs_list = clean_nan (to_dict_records (the jobs_df)) in
                    (Inr \<lparr>success = True,
                          message = ''Found '' @ str_nat (length jobs_list) @ '' jobs'',
                          total_jobs = int (length jobs_list),
                          jobs = jobs_list\<rparr>,
                     [params]))))))"

text \<open>
  The request body as parsed JSON: every key is absent, \<^verbatim>\<open>null\<close> or a value of the
  field's type. \<^verbatim>\<open>JobSearchRequest\<close> declares \<^verbatim>\<open>search_term\<close> required, defaults for
  the others, \<^verbatim>\<open>results_wanted\<close> and \<^verbatim>\<open>is_remote\<close> \<^verbatim>\<open>Optional\<close> (so \<^verbatim>\<open>null\<close> is
  accepted for them only), and \<^verbatim>\<open>ge=1, le=50\<close> on \<^verbatim>\<open>results_wanted\<close>.
\<close>

datatype 'a field = Absent | Null | Given 'a

record search_body =
  b_search_term :: "string field"
  b_location :: "string field"
  b_site_name :: "string list field"
  b_results_wanted :: "int field"
  b_is_remote :: "bool field"

definition JobSearchRequest_errors :: "search_body \<Rightarrow> string list" where
  "JobSearchRequest_errors b =
     (case b_search_term b of Given st \<Rightarrow> [] | Absent \<Rightarrow> [''search_term''] | Null \<Rightarrow> [''search_term'']) @
     (case b_location b of Null \<Rightarrow> [''location''] | Absent \<Rightarrow> [] | Given loc \<Rightarrow> []) @
     (case b_site_name b of Null \<Rightarrow> [''site_name''] | Absent \<Rightarrow> [] | Given sites \<Rightarrow> []) @
     (case b_results_wanted b of
        Given n \<Rightarrow> if 1 \<le> n \<and> n \<le> 50 then [] else [''results_wanted'']
      | Absent \<Rightarrow> []
      | Null \<Rightarrow> [])"

definition JobSearchRequest_of :: "search_body \<Rightarrow> JobSearchRequest" where
  "JobSearchRequest_of b =
     \<lparr>search_term = (case b_search_term b of Given st \<Rightarrow> st | Absent \<Rightarrow> [] | Null \<Rightarrow> []),
      location = (case b_location b of Given loc \<Rightarrow> loc | Absent \<Rightarrow> [] | Null \<Rightarrow> []),
      site_name = (case b_site_name b of Given sites \<Rightarrow> sites | Absent \<Rightarrow> [''indeed''] | Null \<Rightarrow> [''indeed'']),
      results_wanted = (case b_results_wanted b of Given n \<Rightarrow> Some n | Absent \<Rightarrow> Some 10 | Null \<Rightarrow> None),
      is_remote = (case b_is_remote b of Given r \<Rightarrow> Some r | Absent \<Rightarrow> Some False | Null \<Rightarrow> None)\<rparr>"

definition route_search_jobs :: "jobspy \<Rightarrow> search_body \<Rightarrow> JobSearchResponse run" where
  "route_search_jobs js b =
     (if JobSearchRequest_errors b = [] then search_jobs_post js (JobSearchRequest_of b)
      else (Inl (RequestValidationError (JobSearchRequest_errors b)), []))"

subsection \<open>\<^verbatim>\<open>GET /supported-sites\<close>\<close>

text \<open>The payload; its JSON keys are \<^verbatim>\<open>supported_sites\<close> and \<^verbatim>\<open>note\<close>.\<close>

record sites_payload =
  supported_sites :: "string list"
  advisory_note :: string

definition get_supported_sites :: "sites_payload" where
  "get_supported_sites =
     \<lparr>supported_sites = [''indeed'', ''linkedin'', ''glassdoor'', ''google'', ''ziprecruiter''],
      advisory_note = ''Indeed is most reliable for testing''\<rparr>"

text \<open>
  The route: the handler declares no parameter, so whatever query parameters the request
  carries are not looked at.
\<close>

definition route_supported_sites :: "(string \<times> string) list \<Rightarrow> http_error + sites_payload" where
  "route_supported_sites query = Inr get_supported_sites"

subsection \<open>The specification's vocabulary\<close>

text \<open>
  Following the specification's words, not the code: a not-a-number or missing-value
  marker becomes null, and every other value stays as it is.
\<close>

definition nan_to_none :: "pyval \<Rightarrow> pyval" where
  "nan_to_none v = (if isna v then PNone else v)"

text \<open>
  The rows of what the external call returned: none for \<^verbatim>\<open>None\<close>, and the records of
  the frame otherwise (a row is one field-name-to-value mapping).
\<close>

definition rows_of :: "DataFrame option \<Rightarrow> pydict list" where
  "rows_of jobs_df = (case jobs_df of None \<Rightarrow> [] | Some df \<Rightarrow> to_dict_records df)"

subsection \<open>A sample result set and a sample request\<close>

text \<open>
  Two rows of two columns, one cell a \<^verbatim>\<open>nan\<close>; and the body
  \<^verbatim>\<open>{"search_term": "dev"}\<close> after the defaults are filled in.
\<close>

definition sample_frame :: "DataFrame" where
  "sample_frame =
     \<lparr>columns = [''title'', ''salary''],
      data = [[PStr ''dev'', PNaN], [PStr ''ops'', PInt 3]]\<rparr>"

definition sample_request :: "JobSearchRequest" where
  "sample_request =
     \<lparr>search_term = ''dev'', location = [], site_name = [''indeed''],
      results_wanted = Some 10, is_remote = Some False\<rparr>"

section \<open>Properties\<close>

subsection \<open>Dictionaries built from a frame hold each key once\<close>

lemma distinct_py_dict: "distinct (map fst d) \<Longrightarrow> distinct (map fst (py_dict d kvs))"
  by (induction d kvs rule: py_dict.induct) (simp_all add: distinct_update)

lemma records_distinct: "job \<in> set (to_dict_records df) \<Longrightarrow> distinct (map fst job)"
  by (auto simp: to_dict_records_def distinct_py_dict split: if_splits)

subsection \<open>The loop normalizes every value in place\<close>

lemma nan_to_none_idem: "nan_to_none (nan_to_none v) = nan_to_none v"
  by (cases v) (simp_all add: nan_to_none_def)

lemma map_other_key:
  "key \<notin> fst ` set job \<Longrightarrow> map (\<lambda>(k, v). if k = key then (k, f v) else (k, v)) job = job"
  by (induction job) auto

lemma update_present:
  "distinct (map fst job) \<Longrightarrow> (key, val) \<in> set job \<Longrightarrow>
   AList.update key (f val) job = map (\<lambda>(k, v). if k = key then (k, f v) else (k, v)) job"
  by (induction job) (auto simp: map_other_key rev_image_eqI)

lemma clean_step:
  assumes "distinct (map fst job)" "(key, val) \<in> set job"
  shows "(if isna val then AList.update key PNone job else job) =
     map (\<lambda>(k, v). if k = key then (k, nan_to_none v) else (k, v)) job"
proof (cases "isna val")
  case True
  then have "nan_to_none val = PNone" by (simp add: nan_to_none_def)
  with update_present[OF assms, of nan_to_none] True show ?thesis by simp
next
  case False
  have "map (\<lambda>(k, v). if k = key then (k, nan_to_none v) else (k, v)) job = job"
  proof (rule map_idI)
    fix x assume x: "x \<in> set job"
    obtain k v where kv: "x = (k, v)" by (cases x)
    show "(case x of (k, v) \<Rightarrow> if k = key then (k, nan_to_none v) else (k, v)) = x"
    proof (cases "k = key")
      case True
      with x kv assms have "v = val" by (auto dest: eq_key_imp_eq_value)
      with False kv True show ?thesis by (simp add: nan_to_none_def)
    next
      case False
      with kv show ?thesis by simp
    qed
  qed
  with False show ?thesis by simp
qed

lemma clean_items_map:
  "distinct (map fst job) \<Longrightarrow> distinct (map fst its) \<Longrightarrow> set its \<subseteq> set job \<Longrightarrow>
   clean_items its job =
     map (\<lambda>(k, v). if k \<in> fst ` set its then (k, nan_to_none v) else (k, v)) job"
proof (induction its arbitrary: job)
  case Nil
  then show ?case by simp
next
  case (Cons it its)
  obtain key val where it: "it = (key, val)" by (cases it)
  let ?job' = "map (\<lambda>(k, v). if k = key then (k, nan_to_none v) else (k, v)) job"
  have step: "(if isna val then AList.update key PNone job else job) = ?job'"
    using Cons.prems it by (intro clean_step) auto
  have keys: "map fst ?job' = map fst job"
    by (induction job) auto
  have d': "distinct (map fst ?job')"
    unfolding keys by (rule Cons.prems(1))
  have sub: "set its \<subseteq> set ?job'"
  proof
    fix x assume x: "x \<in> set its"
    obtain k v where kv: "x = (k, v)" by (cases x)
    from x kv Cons.prems(2) it have "k \<noteq> key" by (auto simp: rev_image_eqI)
    moreover from x Cons.prems(3) have "x \<in> set job" by auto
    ultimately show "x \<in> set ?job'" using kv by (auto simp: image_iff intro!: bexI[of _ x])
  qed
  have "clean_items (it # its) job = clean_items its ?job'"
    using step it by simp
  also have "\<dots> = map (\<lambda>(k, v). if k \<in> fst ` set its then (k, nan_to_none v) else (k, v)) ?job'"
    using Cons.IH[OF d' _ sub] Cons.prems(2) by simp
  also have "\<dots> = map (\<lambda>(k, v). if k \<in> fst ` set (it # its) then (k, nan_to_none v) else (k, v)) job"
    by (auto simp: it nan_to_none_idem)
  finally show ?case .
qed

lemma clean_job_map:
  assumes "distinct (map fst job)"
  shows "clean_job job = map (\<lambda>(k, v). (k, nan_to_none v)) job"
proof -
  have "clean_job job = map (\<lambda>(k, v). if k \<in> fst ` set job then (k, nan_to_none v) else (k, v)) job"
    unfolding clean_job_def using assms by (intro clean_items_map) auto
  also have "\<dots> = map (\<lambda>(k, v). (k, nan_to_none v)) job"
    by (rule map_cong) (auto simp: rev_image_eqI)
  finally show ?thesis .
qed

lemma clean_nan_map: "clean_nan jobs_list = map clean_job jobs_list"
  by (induction jobs_list) simp_all

lemma clean_nan_records:
  "clean_nan (to_dict_records df) = map (map (\<lambda>(k, v). (k, nan_to_none v))) (to_dict_records df)"
  unfolding clean_nan_map by (rule map_cong) (auto simp: clean_job_map records_distinct)

subsection \<open>What a search handler answers when the call returns\<close>

lemma none_or_empty_rows: "none_or_empty r \<longleftrightarrow> rows_of r = []"
  by (cases r) (auto simp: none_or_empty_def rows_of_def df_empty_def to_dict_records_def)

lemma rows_of_the: "\<not> none_or_empty r \<Longrightarrow> to_dict_records (the r) = rows_of r"
  by (cases r) (auto simp: none_or_empty_def rows_of_def)

lemma clean_nan_rows:
  "clean_nan (rows_of r) = map (map (\<lambda>(k, v). (k, nan_to_none v))) (rows_of r)"
  by (cases r) (simp_all add: rows_of_def clean_nan_records)

lemma length_clean_nan: "length (clean_nan jobs_list) = length jobs_list"
  by (simp add: clean_nan_map)

lemma simple_returned:
  assumes "scrape_jobs (simple_kwargs st loc n) = Returns r"
  shows "fst (search_jobs_simple (Inr scrape_jobs) st loc n) =
     Inr (if rows_of r = [] then
            \<lparr>success = True, message = ''No jobs found for the search criteria'',
             total_jobs = 0, jobs = []\<rparr>
          else
            \<lparr>success = True,
             message = ''Found '' @ str_nat (length (clean_nan (rows_of r))) @ '' jobs'',
             total_jobs = int (length (clean_nan (rows_of r))),
             jobs = clean_nan (rows_of r)\<rparr>)"
  using assms
  by (simp add: search_jobs_simple_def none_or_empty_rows rows_of_the Let_def)

lemma post_returned:
  assumes "scrape_jobs (remove_empty (search_params request)) = Returns r"
  shows "fst (search_jobs_post (Inr scrape_jobs) request) =
     Inr (if rows_of r = [] then
            \<lparr>success = True, message = ''No jobs found'', total_jobs = 0, jobs = []\<rparr>
          else
            \<lparr>success = True,
             message = ''Found '' @ str_nat (length (clean_nan (rows_of r))) @ '' jobs'',
             total_jobs = int (length (clean_nan (rows_of r))),
             jobs = clean_nan (rows_of r)\<rparr>)"
  using assms
  by (simp add: search_jobs_post_def none_or_empty_rows rows_of_the Let_def)

lemma sample_rows:
  "rows_of (Some sample_frame) =
     [[(''title'', PStr ''dev''), (''salary'', PNaN)], [(''title'', PStr ''ops''), (''salary'', PInt 3)]]"
  by (simp add: rows_of_def to_dict_records_def sample_frame_def)

text \<open>
  When the frame has a column, its records are as many as its index entries; a frame
  without columns has no record, whatever its index.
\<close>

lemma length_records: "columns df \<noteq> [] \<Longrightarrow> length (to_dict_records df) = length (data df)"
  by (simp add: to_dict_records_def)

lemma rows_of_Some_length:
  "columns df \<noteq> [] \<Longrightarrow> length (rows_of (Some df)) = length (data df)"
  by (simp add: rows_of_def length_records)

lemma rows_of_Some_Nil: "columns df \<noteq> [] \<Longrightarrow> rows_of (Some df) = [] \<longleftrightarrow> data df = []"
  by (simp add: rows_of_def to_dict_records_def)

section \<open>The claims\<close>

text \<open>
  C1. For every search call, on \<^verbatim>\<open>GET /search-jobs-simple\<close> and on \<^verbatim>\<open>POST /search-jobs\<close>,
  whose external scrape call returns \<open>N\<close> rows, the response is a success whose
  \<^verbatim>\<open>total_jobs\<close> is \<open>N\<close> and whose \<^verbatim>\<open>jobs\<close> list has length \<open>N\<close>. The rows of a
  returned \<^verbatim>\<open>None\<close> are none; the rows of a frame are its records, which for a frame
  with a column are as many as its index entries.
\<close>

theorem total_jobs_counts_rows:
  "(scrape_jobs (simple_kwargs st loc n) = Returns r \<longrightarrow>
      (\<exists>resp. fst (search_jobs_simple (Inr scrape_jobs) st loc n) = Inr resp \<and>
         total_jobs resp = int (length (rows_of r)) \<and>
         length (jobs resp) = length (rows_of r) \<and>
         (\<forall>df. r = Some df \<and> columns df \<noteq> [] \<longrightarrow> length (jobs resp) = length (data df)))) \<and>
   (scrape_jobs (remove_empty (search_params request)) = Returns r \<longrightarrow>
      (\<exists>resp. fst (search_jobs_post (Inr scrape_jobs) request) = Inr resp \<and>
         total_jobs resp = int (length (rows_of r)) \<and>
         length (jobs resp) = length (rows_of r) \<and>
         (\<forall>df. r = Some df \<and> columns df \<noteq> [] \<longrightarrow> length (jobs resp) = length (data df))))"
  by (auto simp: simple_returned post_returned length_clean_nan rows_of_Some_length rows_of_Some_Nil)

theorem total_jobs_counts_rows_witness:
  "(\<exists>resp. fst (search_jobs_simple (Inr (const_scraper (Returns (Some sample_frame)))) ''dev'' [] 5)
        = Inr resp \<and> total_jobs resp = 2 \<and> length (jobs resp) = 2) \<and>
   (\<exists>resp. fst (search_jobs_post (Inr (const_scraper (Returns (Some sample_frame)))) sample_request)
        = Inr resp \<and> total_jobs resp = 2 \<and> length (jobs resp) = 2)"
proof -
  have n: "length (rows_of (Some sample_frame)) = 2"
    by (simp add: sample_rows)
  have c: "columns sample_frame \<noteq> []" "length (data sample_frame) = 2"
    by (simp_all add: sample_frame_def)
  show ?thesis
    using total_jobs_counts_rows [of "const_scraper (Returns (Some sample_frame))"
        "''dev''" "[]" 5 "Some sample_frame" sample_request]
    unfolding n by (simp add: const_scraper_def c)
qed

lemma simple_jobs:
  assumes "scrape_jobs (simple_kwargs st loc n) = Returns r"
  shows "\<exists>resp. fst (search_jobs_simple (Inr scrape_jobs) st loc n) = Inr resp \<and>
           jobs resp = clean_nan (rows_of r)"
  using assms by (simp add: simple_returned)

lemma post_jobs:
  assumes "scrape_jobs (remove_empty (search_params request)) = Returns r"
  shows "\<exists>resp. fst (search_jobs_post (Inr scrape_jobs) request) = Inr resp \<and>
           jobs resp = clean_nan (rows_of r)"
  using assms by (simp add: post_returned)

text \<open>
  C2. For every search call whose external scrape call returns no rows (\<^verbatim>\<open>None\<close>, or
  a frame without records), the response is a success with \<^verbatim>\<open>total_jobs = 0\<close> and
  \<^verbatim>\<open>jobs = []\<close>, never an error; on the simple endpoint the message is exactly
  \<^verbatim>\<open>No jobs found for the search criteria\<close> (on the advanced one, \<^verbatim>\<open>No jobs found\<close>).
\<close>

theorem empty_result_is_success:
  "(scrape_jobs (simple_kwargs st loc n) = Returns r \<and> rows_of r = [] \<longrightarrow>
      fst (search_jobs_simple (Inr scrape_jobs) st loc n) =
        Inr \<lparr>success = True, message = ''No jobs found for the search criteria'',
             total_jobs = 0, jobs = []\<rparr>) \<and>
   (scrape_jobs (remove_empty (search_params request)) = Returns r \<and> rows_of r = [] \<longrightarrow>
      fst (search_jobs_post (Inr scrape_jobs) request) =
        Inr \<lparr>success = True, message = ''No jobs found'', total_jobs = 0, jobs = []\<rparr>)"
  by (simp add: simple_returned post_returned)

theorem empty_result_is_success_witness:
  "rows_of (Some \<lparr>columns = [''title''], data = []\<rparr>) = [] \<and>
   fst (search_jobs_simple (Inr (const_scraper (Returns (Some \<lparr>columns = [''title''], data = []\<rparr>))))
      ''developer'' ''Remote'' 5) =
     Inr \<lparr>success = True, message = ''No jobs found for the search criteria'',
          total_jobs = 0, jobs = []\<rparr> \<and>
   fst (search_jobs_post (Inr (const_scraper (Returns (Some \<lparr>columns = [''title''], data = []\<rparr>))))
      sample_request) =
     Inr \<lparr>success = True, message = ''No jobs found'', total_jobs = 0, jobs = []\<rparr>"
proof -
  have e: "rows_of (Some \<lparr>columns = [''title''], data = []\<rparr>) = []"
    by (simp add: rows_of_def to_dict_records_def)
  show ?thesis
    using e empty_result_is_success [of
        "const_scraper (Returns (Some \<lparr>columns = [''title''], data = []\<rparr>))"
        "''developer''" "''Remote''" 5 "Some \<lparr>columns = [''title''], data = []\<rparr>" sample_request]
    by (simp add: const_scraper_def)
qed

text \<open>
  C3. In the null-normalization step of both search endpoints, for every row and every
  field, a value that is a missing-value marker is replaced with null and every other
  value is left exactly as it was: the \<^verbatim>\<open>jobs\<close> of the response are the returned
  rows with each value so mapped, keys and order untouched.
\<close>

theorem nan_becomes_none_rest_unchanged:
  "(scrape_jobs (simple_kwargs st loc n) = Returns r \<longrightarrow>
      (\<exists>resp. fst (search_jobs_simple (Inr scrape_jobs) st loc n) = Inr resp \<and>
         jobs resp = map (map (\<lambda>(k, v). (k, if isna v then PNone else v))) (rows_of r))) \<and>
   (scrape_jobs (remove_empty (search_params request)) = Returns r \<longrightarrow>
      (\<exists>resp. fst (search_jobs_post (Inr scrape_jobs) request) = Inr resp \<and>
         jobs resp = map (map (\<lambda>(k, v). (k, if isna v then PNone else v))) (rows_of r)))"
proof -
  have "clean_nan (rows_of r) = map (map (\<lambda>(k, v). (k, if isna v then PNone else v))) (rows_of r)"
    using clean_nan_rows[of r] by (simp add: nan_to_none_def)
  with simple_jobs[of scrape_jobs st loc n r] post_jobs[of scrape_jobs request r]
  show ?thesis by auto
qed

theorem nan_becomes_none_rest_unchanged_witness:
  "(\<exists>resp. fst (search_jobs_simple (Inr (const_scraper (Returns (Some sample_frame)))) ''dev'' [] 5)
        = Inr resp \<and>
      jobs resp = [[(''title'', PStr ''dev''), (''salary'', PNone)],
                   [(''title'', PStr ''ops''), (''salary'', PInt 3)]]) \<and>
   (\<exists>resp. fst (search_jobs_post (Inr (const_scraper (Returns (Some sample_frame)))) sample_request)
        = Inr resp \<and>
      jobs resp = [[(''title'', PStr ''dev''), (''salary'', PNone)],
                   [(''title'', PStr ''ops''), (''salary'', PInt 3)]])"
  using nan_becomes_none_rest_unchanged [of "const_scraper (Returns (Some sample_frame))"
        "''dev''" "[]" 5 "Some sample_frame" sample_request]
  unfolding sample_rows by (simp add: const_scraper_def)

text \<open>
  C10. The null-normalization step changes field values only: the rows are as many as
  were returned, the row at each position is the cleaned row of that position, and its
  field names are the same, in the same order.
\<close>

theorem cleaning_keeps_rows_and_keys:
  "(scrape_jobs (simple_kwargs st loc n) = Returns r \<longrightarrow>
      (\<exists>resp. fst (search_jobs_simple (Inr scrape_jobs) st loc n) = Inr resp \<and>
         length (jobs resp) = length (rows_of r) \<and>
         (\<forall>i<length (rows_of r).
            jobs resp ! i = clean_job (rows_of r ! i) \<and>
            map fst (jobs resp ! i) = map fst (rows_of r ! i)))) \<and>
   (scrape_jobs (remove_empty (search_params request)) = Returns r \<longrightarrow>
      (\<exists>resp. fst (search_jobs_post (Inr scrape_jobs) request) = Inr resp \<and>
         length (jobs resp) = length (rows_of r) \<and>
         (\<forall>i<length (rows_of r).
            jobs resp ! i = clean_job (rows_of r ! i) \<and>
            map fst (jobs resp ! i) = map fst (rows_of r ! i))))"
proof -
  have keys: "map fst (clean_nan (rows_of r) ! i) = map fst (rows_of r ! i)"
    if "i < length (rows_of r)" for i
    using that by (simp add: clean_nan_rows comp_def case_prod_beta)
  have row: "clean_nan (rows_of r) ! i = clean_job (rows_of r ! i)"
    if "i < length (rows_of r)" for i
    using that by (simp add: clean_nan_map)
  from simple_jobs[of scrape_jobs st loc n r] post_jobs[of scrape_jobs request r] keys row
  show ?thesis by (auto simp: length_clean_nan)
qed

theorem cleaning_keeps_rows_and_keys_witness:
  "(\<exists>resp. fst (search_jobs_simple (Inr (const_scraper (Returns (Some sample_frame)))) ''dev'' [] 5)
        = Inr resp \<and> length (jobs resp) = 2 \<and>
        map fst (jobs resp ! 0) = [''title'', ''salary''] \<and>
        map fst (jobs resp ! 1) = [''title'', ''salary'']) \<and>
   (\<exists>resp. fst (search_jobs_post (Inr (const_scraper (Returns (Some sample_frame)))) sample_request)
        = Inr resp \<and> length (jobs resp) = 2 \<and>
        map fst (jobs resp ! 0) = [''title'', ''salary''] \<and>
        map fst (jobs resp ! 1) = [''title'', ''salary''])"
  using cleaning_keeps_rows_and_keys [of "const_scraper (Returns (Some sample_frame))"
        "''dev''" "[]" 5 "Some sample_frame" sample_request]
  unfolding sample_rows
  by (simp add: const_scraper_def All_less_Suc2 numeral_2_eq_2) (elim conjE exE, intro conjI exI, assumption+)

text \<open>
  C4, as stated, fails on the advanced endpoint: its detail is \<^verbatim>\<open>str(e)\<close> alone, so an
  exception whose message is empty (\<^verbatim>\<open>Exception()\<close>) gives an empty detail.
\<close>

theorem post_detail_may_be_empty:
  "fst (search_jobs_post (Inr (const_scraper (Raises (PyException []))))
      \<lparr>search_term = ''dev'', location = [], site_name = [''indeed''],
       results_wanted = Some 10, is_remote = Some False\<rparr>) = Inl (HTTPException 500 [])"
  by (simp add: search_jobs_post_def const_scraper_def)

text \<open>
  C4, amended. An exception raised by the external scrape call never leaves a search
  handler unhandled: the handler ends in an HTTP 500 whose detail contains the
  exception's message text. On the simple endpoint the detail is \<^verbatim>\<open>Search failed: \<close>
  followed by the message, and so is never empty; on the advanced endpoint the detail
  is the message itself.
\<close>

theorem scrape_exception_becomes_500:
  "(scrape_jobs (simple_kwargs st loc n) = Raises e \<longrightarrow>
      (\<exists>d. fst (search_jobs_simple (Inr scrape_jobs) st loc n) = Inl (HTTPException 500 d) \<and>
         d = ''Search failed: '' @ str e \<and> d \<noteq> [] \<and> sublist (str e) d)) \<and>
   (scrape_jobs (remove_empty (search_params request)) = Raises e \<longrightarrow>
      (\<exists>d. fst (search_jobs_post (Inr scrape_jobs) request) = Inl (HTTPException 500 d) \<and>
         d = str e \<and> sublist (str e) d))"
  using sublist_append_leftI [of "str e" "''Search failed: ''"]
  by (simp add: search_jobs_simple_def search_jobs_post_def Let_def)

theorem scrape_exception_becomes_500_witness:
  "(\<exists>d. fst (search_jobs_simple (Inr (const_scraper (Raises (PyException ''timeout'')))) ''dev'' [] 5)
        = Inl (HTTPException 500 d) \<and> d = ''Search failed: timeout'' \<and> d \<noteq> [] \<and>
        sublist ''timeout'' d) \<and>
   (\<exists>d. fst (search_jobs_post (Inr (const_scraper (Raises (PyException ''timeout'')))) sample_request)
        = Inl (HTTPException 500 d) \<and> d = ''timeout'' \<and> sublist ''timeout'' d)"
  using scrape_exception_becomes_500 [of "const_scraper (Raises (PyException ''timeout''))"
      "''dev''" "[]" 5 "PyException ''timeout''" sample_request]
  by (simp add: const_scraper_def)

text \<open>
  C5. A request whose \<^verbatim>\<open>results_wanted\<close> lies outside \<open>[1, 20]\<close> on
  \<^verbatim>\<open>GET /search-jobs-simple\<close>, or outside \<open>[1, 50]\<close> on \<^verbatim>\<open>POST /search-jobs\<close>, is
  answered with status 422 by the validation of the declared parameters, and no call of
  the scraper is made, whatever the scraper is.
\<close>

theorem results_wanted_out_of_range_rejected:
  "(q_results_wanted q = Some n \<and> (n < 1 \<or> 20 < n) \<longrightarrow>
      (\<exists>err. fst (route_search_jobs_simple js q) = Inl err \<and> status_code err = 422) \<and>
      snd (route_search_jobs_simple js q) = []) \<and>
   (b_results_wanted b = Given m \<and> (m < 1 \<or> 50 < m) \<longrightarrow>
      (\<exists>err. fst (route_search_jobs js b) = Inl err \<and> status_code err = 422) \<and>
      snd (route_search_jobs js b) = [])"
  by (auto simp: route_search_jobs_simple_def simple_query_errors_def
        route_search_jobs_def JobSearchRequest_errors_def)

theorem results_wanted_out_of_range_rejected_witness:
  "((\<exists>err. fst (route_search_jobs_simple (Inr (const_scraper (Returns (Some sample_frame))))
        \<lparr>q_search_term = Some ''dev'', q_location = None, q_results_wanted = Some 21\<rparr>) = Inl err \<and>
        status_code err = 422) \<and>
    snd (route_search_jobs_simple (Inr (const_scraper (Returns (Some sample_frame))))
        \<lparr>q_search_term = Some ''dev'', q_location = None, q_results_wanted = Some 21\<rparr>) = []) \<and>
   ((\<exists>err. fst (route_search_jobs (Inr (const_scraper (Returns (Some sample_frame))))
        \<lparr>b_search_term = Given ''dev'', b_location = Absent, b_site_name = Absent,
         b_results_wanted = Given 0, b_is_remote = Absent\<rparr>) = Inl err \<and>
        status_code err = 422) \<and>
    snd (route_search_jobs (Inr (const_scraper (Returns (Some sample_frame))))
        \<lparr>b_search_term = Given ''dev'', b_location = Absent, b_site_name = Absent,
         b_results_wanted = Given 0, b_is_remote = Absent\<rparr>) = [])"
  using results_wanted_out_of_range_rejected [of
      "\<lparr>q_search_term = Some ''dev'', q_location = None, q_results_wanted = Some 21\<rparr>" 21
      "Inr (const_scraper (Returns (Some sample_frame)))"
      "\<lparr>b_search_term = Given ''dev'', b_location = Absent, b_site_name = Absent,
         b_results_wanted = Given 0, b_is_remote = Absent\<rparr>" 0]
  by simp

text \<open>The advanced handler calls the scraper once, with the filtered parameters.\<close>

lemma post_calls:
  "snd (search_jobs_post (Inr scrape_jobs) request) = [remove_empty (search_params request)]"
  by (simp add: search_jobs_post_def Let_def split: scrape_outcome.splits)








text \<open>
  For the sample request the empty \<^verbatim>\<open>location\<close> and the false \<^verbatim>\<open>is_remote\<close> are
  not passed.
\<close>

lemma sample_call:
  "snd (search_jobs_post (Inr (const_scraper (Returns None))) sample_request) =
     [[(''search_term'', AStr ''dev''), (''site_name'', AStrList [''indeed'']),
       (''results_wanted'', AInt 10)]]"
  by (simp add: post_calls remove_empty_def search_params_def sample_request_def)

text \<open>
  C7, as stated, fails: when the scraper returns \<^verbatim>\<open>None\<close> the two handlers answer
  with different messages, \<^verbatim>\<open>No jobs found for the search criteria\<close> and
  \<^verbatim>\<open>No jobs found\<close>.
\<close>

theorem messages_differ_on_empty:
  "fst (search_jobs_simple (Inr (const_scraper (Returns None))) ''developer'' ''Remote'' 5) \<noteq>
   fst (search_jobs_post (Inr (const_scraper (Returns None)))
      \<lparr>search_term = ''developer'', location = ''Remote'', site_name = [''indeed''],
       results_wanted = Some 5, is_remote = Some False\<rparr>)"
  by (simp add: search_jobs_simple_def search_jobs_post_def const_scraper_def none_or_empty_def)

text \<open>
  C7, amended. Given the same external result set, the two search handlers answer with
  the same success flag, the same \<^verbatim>\<open>total_jobs\<close> and the same \<^verbatim>\<open>jobs\<close>; their
  messages are the same when the result set has a row, and are
  \<^verbatim>\<open>No jobs found for the search criteria\<close> (simple) and \<^verbatim>\<open>No jobs found\<close>
  (advanced) when it has none.
\<close>

theorem handlers_agree_but_for_empty_message:
  "scrape_jobs (simple_kwargs st loc n) = Returns r \<and>
   scrape_jobs' (remove_empty (search_params request)) = Returns r \<longrightarrow>
     (\<exists>resp resp'.
        fst (search_jobs_simple (Inr scrape_jobs) st loc n) = Inr resp \<and>
        fst (search_jobs_post (Inr scrape_jobs') request) = Inr resp' \<and>
        success resp = success resp' \<and>
        total_jobs resp = total_jobs resp' \<and>
        jobs resp = jobs resp' \<and>
        (if rows_of r = []
         then message resp = ''No jobs found for the search criteria'' \<and>
              message resp' = ''No jobs found''
         else message resp = message resp'))"
  by (simp add: simple_returned post_returned)

theorem handlers_agree_but_for_empty_message_witness:
  "\<exists>resp resp'.
        fst (search_jobs_simple (Inr (const_scraper (Returns (Some sample_frame)))) ''dev'' [] 5) = Inr resp \<and>
        fst (search_jobs_post (Inr (const_scraper (Returns (Some sample_frame)))) sample_request) = Inr resp' \<and>
        success resp = success resp' \<and>
        total_jobs resp = total_jobs resp' \<and>
        jobs resp = jobs resp' \<and>
        message resp = message resp'"
  using handlers_agree_but_for_empty_message [of "const_scraper (Returns (Some sample_frame))"
      "''dev''" "[]" 5 "Some sample_frame" "const_scraper (Returns (Some sample_frame))" sample_request]
  unfolding sample_rows by (simp add: const_scraper_def)

text \<open>
  C8. \<^verbatim>\<open>GET /test\<close> never ends in a failure response. When importing the scraper
  raises, the payload has status \<^verbatim>\<open>error\<close>, a message that contains the exception's
  text, and \<^verbatim>\<open>jobspy_imported\<close> false; when the import succeeds the flag is true.
\<close>

theorem test_reports_import_outcome:
  "(\<exists>p. test_jobspy (Inl e) = Inr p \<and> test_status p = ''error'' \<and>
        test_message p = ''JobSpy test failed: '' @ str e \<and> sublist (str e) (test_message p) \<and>
        jobspy_imported p = False) \<and>
   (\<exists>p. test_jobspy (Inr scrape_jobs) = Inr p \<and> test_status p = ''success'' \<and>
        jobspy_imported p = True)"
  using sublist_append_leftI [of "str e" "''JobSpy test failed: ''"]
  by (simp add: test_jobspy_def)

theorem test_reports_import_outcome_witness:
  "(\<exists>p. test_jobspy (Inl (PyException ''No module named jobspy'')) = Inr p \<and>
        test_status p = ''error'' \<and>
        test_message p = ''JobSpy test failed: No module named jobspy'' \<and>
        sublist ''No module named jobspy'' (test_message p) \<and>
        jobspy_imported p = False) \<and>
   (\<exists>p. test_jobspy (Inr (const_scraper (Returns None))) = Inr p \<and> test_status p = ''success'' \<and>
        jobspy_imported p = True)"
  using test_reports_import_outcome [of "PyException ''No module named jobspy''"
      "const_scraper (Returns None)"]
  by simp

text \<open>
  C9. \<^verbatim>\<open>GET /supported-sites\<close> answers every request, whatever it carries, with the
  same list of five sites and the same advisory note.
\<close>

theorem supported_sites_fixed:
  "route_supported_sites query =
     Inr \<lparr>supported_sites = [''indeed'', ''linkedin'', ''glassdoor'', ''google'', ''ziprecruiter''],
          advisory_note = ''Indeed is most reliable for testing''\<rparr> \<and>
   length (supported_sites get_supported_sites) = 5 \<and>
   route_supported_sites query = route_supported_sites query'"
  by (simp add: route_supported_sites_def get_supported_sites_def)

theorem supported_sites_fixed_witness:
  "route_supported_sites [(''site'', ''monster'')] =
     Inr \<lparr>supported_sites = [''indeed'', ''linkedin'', ''glassdoor'', ''google'', ''ziprecruiter''],
          advisory_note = ''Indeed is most reliable for testing''\<rparr> \<and>
   length (supported_sites get_supported_sites) = 5 \<and>
   route_supported_sites [(''site'', ''monster'')] = route_supported_sites []"
  using supported_sites_fixed [of "[(''site'', ''monster'')]" "[]"] .

end
